theory Spec2Isabelle
  imports Main "HOL-Library.Word"
begin

section \<open>Workspace-proxy coordination endpoints of the enterprise API\<close>

text \<open>
  The development follows \<^verbatim>\<open>enterprise/coderd/workspaceproxycoordinate.go\<close>, which
  holds the two HTTP handlers \<^verbatim>\<open>agentIsLegacy\<close> and \<^verbatim>\<open>workspaceProxyCoordinate\<close>.
  Go values become HOL values, a run-time panic becomes the left injection of a sum,
  and every collaborator whose code lives in another package (the coordinator behind
  its interface, \<^verbatim>\<open>httpmw.ParseUUIDParam\<close>, the constant
  \<^verbatim>\<open>codersdk.WorkspaceAgentIP\<close>) is an argument of the handler.
\<close>

subsection \<open>Data\<close>

text \<open>A \<^verbatim>\<open>uuid.UUID\<close> is an array of 16 bytes.\<close>

type_synonym uuid = "128 word"

text \<open>
  \<^verbatim>\<open>netip.Prefix\<close> pairs an address with a prefix length; its method \<^verbatim>\<open>Addr()\<close>
  returns the address. The layout of \<^verbatim>\<open>netip.Addr\<close> is left open (a type
  variable); Go's \<^verbatim>\<open>==\<close> on it is equality.
\<close>

record 'addr Prefix =
  ip :: 'addr
  bits :: int

definition Addr :: "'addr Prefix \<Rightarrow> 'addr" where
  "Addr p = ip p"

text \<open>
  \<^verbatim>\<open>tailnet.Node\<close>: the handler reads only the field \<^verbatim>\<open>Addresses\<close>; the record is
  extensible, so the other fields stay abstract.
\<close>

record 'addr Node =
  Addresses :: "'addr Prefix list"

text \<open>The two JSON payloads the handlers write.\<close>

datatype body =
    Response (Message: string) (Detail: string)
  | AgentIsLegacyResponse (Found: bool) (Legacy: bool)

record http_write =
  status :: nat
  payload :: body

type_synonym ResponseWriter = "http_write list"

definition StatusOK :: nat where
  "StatusOK = 200"

definition StatusBadRequest :: nat where
  "StatusBadRequest = 400"

text \<open>
  Modelled from the spec: \<^verbatim>\<open>httpapi.Write\<close> (package \<^verbatim>\<open>coderd/httpapi\<close>, not part of
  the sources at hand) sends a status code and a JSON payload; the response writer is
  the log of what has been sent, in order.
\<close>

definition Write :: "ResponseWriter \<Rightarrow> nat \<Rightarrow> body \<Rightarrow> ResponseWriter" where
  "Write rw code b = rw @ [\<lparr>status = code, payload = b\<rparr>]"

subsection \<open>Go expressions that can panic\<close>

datatype panic =
    IndexOutOfRange nat nat
  | NilDereference

text \<open>\<^verbatim>\<open>xs[i]\<close> panics outside the slice; \<^verbatim>\<open>p.f\<close> panics on a nil pointer.\<close>

definition index :: "'a list \<Rightarrow> nat \<Rightarrow> panic + 'a" where
  "index xs i = (if i < length xs then Inr (xs ! i) else Inl (IndexOutOfRange i (length xs)))"

definition deref :: "'a option \<Rightarrow> panic + 'a" where
  "deref p = (case p of None \<Rightarrow> Inl NilDereference | Some v \<Rightarrow> Inr v)"

definition bind :: "panic + 'a \<Rightarrow> ('a \<Rightarrow> panic + 'b) \<Rightarrow> panic + 'b" where
  "bind m f = (case m of Inl e \<Rightarrow> Inl e | Inr v \<Rightarrow> f v)"

text \<open>
  \<^verbatim>\<open>a && b\<close> evaluates \<^verbatim>\<open>b\<close> only when \<^verbatim>\<open>a\<close> is true, so a panic of \<^verbatim>\<open>b\<close>
  is seen only then.
\<close>

definition and_then :: "panic + bool \<Rightarrow> panic + bool \<Rightarrow> panic + bool" where
  "and_then a b = (case a of Inl e \<Rightarrow> Inl e | Inr x \<Rightarrow> (if x then b else Inr False))"

subsection \<open>The handler \<^verbatim>\<open>agentIsLegacy\<close>\<close>

text \<open>
  The expression of the \<^verbatim>\<open>Legacy\<close> field:
  \<^verbatim>\<open>node != nil && len(node.Addresses) > 0 && node.Addresses[0].Addr() == codersdk.WorkspaceAgentIP\<close>.
\<close>

definition legacy_of :: "'addr \<Rightarrow> ('addr, 'm) Node_scheme option \<Rightarrow> panic + bool" where
  "legacy_of WorkspaceAgentIP node =
     and_then (Inr (node \<noteq> None))
       (and_then (bind (deref node) (\<lambda>n. Inr (length (Addresses n) > 0)))
          (bind (deref node) (\<lambda>n. bind (index (Addresses n) 0)
             (\<lambda>p. Inr (Addr p = WorkspaceAgentIP)))))"

text \<open>
  Arguments, in order: the constant \<^verbatim>\<open>codersdk.WorkspaceAgentIP\<close>; the helper
  \<^verbatim>\<open>httpmw.ParseUUIDParam\<close>, which receives the response writer, the request and the
  parameter name and returns the writer as it left it, the parsed id and the flag
  \<^verbatim>\<open>ok\<close>; the method \<^verbatim>\<open>Node\<close> of the coordinator interface, which returns the node
  pointer (\<open>None\<close> is nil) and the coordinator as the call left it; the response writer;
  the request; the coordinator loaded from \<^verbatim>\<open>api.AGPL.TailnetCoordinator\<close>
  (the receiver \<^verbatim>\<open>api\<close> and the pointer it stores are taken as valid).
  The result is the response writer and the coordinator after the handler, or a panic.
\<close>

definition agentIsLegacy ::
  "'addr \<Rightarrow> (ResponseWriter \<Rightarrow> 'req \<Rightarrow> string \<Rightarrow> ResponseWriter \<times> uuid \<times> bool) \<Rightarrow>
   ('c \<Rightarrow> uuid \<Rightarrow> ('addr, 'm) Node_scheme option \<times> 'c) \<Rightarrow>
   ResponseWriter \<Rightarrow> 'req \<Rightarrow> 'c \<Rightarrow> panic + (ResponseWriter \<times> 'c)" where
  "agentIsLegacy WorkspaceAgentIP ParseUUIDParam Node_method rw r coordinator =
     (case ParseUUIDParam rw r ''workspaceagent'' of
        (rw1, agentID, ok) \<Rightarrow>
          if \<not> ok then
            Inr (Write rw1 StatusBadRequest (Response ''Missing UUID in URL.'' ''''), coordinator)
          else
            (case Node_method coordinator agentID of
               (node, coordinator1) \<Rightarrow>
                 bind (legacy_of WorkspaceAgentIP node)
                   (\<lambda>legacy. Inr (Write rw1 StatusOK
                        (AgentIsLegacyResponse (node \<noteq> None) legacy), coordinator1))))"

text \<open>What the client sees of a run: the response writer, without the coordinator.\<close>

definition response_of :: "panic + (ResponseWriter \<times> 'c) \<Rightarrow> panic + ResponseWriter" where
  "response_of res = map_sum id fst res"

subsection \<open>The handler \<^verbatim>\<open>workspaceProxyCoordinate\<close>\<close>

text \<open>
  The handler only calls into other packages, so it is modelled by the sequence of the
  calls it makes, in program order. \<^verbatim>\<open>websocket.NetConn(ctx, conn, typ)\<close> wraps the
  accepted connection; \<^verbatim>\<open>websocket.StatusInternalError\<close> is close code 1011.
\<close>

datatype MessageType = MessageText | MessageBinary

datatype 'conn netconn = NetConn 'conn MessageType

definition StatusInternalError :: nat where
  "StatusInternalError = 1011"

datatype ('conn, 'sub) event =
    EvWaitMutexLock
  | EvWaitGroupAdd int
  | EvWaitMutexUnlock
  | EvWaitGroupDone
  | EvAccept
  | EvWrite nat body
  | EvUuidNew
  | EvServeMultiAgent uuid
  | EvNetConn 'conn MessageType
  | EvServeWorkspaceProxy "'conn netconn" 'sub
  | EvConnClose nat string
  | EvNcClose "'conn netconn"

text \<open>
  Arguments, in order: what \<^verbatim>\<open>websocket.Accept(rw, r, nil)\<close> returns (\<open>Inl\<close> the text of
  the error, \<open>Inr\<close> the connection); what \<^verbatim>\<open>uuid.New()\<close> returns; the method
  \<^verbatim>\<open>ServeMultiAgent\<close> of the coordinator interface (the handle it returns for an id);
  what \<^verbatim>\<open>tailnet.ServeWorkspaceProxy(ctx, nc, sub)\<close> returns once serving has ended
  (\<open>None\<close> is a nil error). Deferred calls run when the function returns, last
  registered first: \<^verbatim>\<open>nc.Close()\<close> is registered only after the upgrade,
  \<^verbatim>\<open>WebsocketWaitGroup.Done()\<close> on every path.
\<close>

definition workspaceProxyCoordinate ::
  "string + 'conn \<Rightarrow> uuid \<Rightarrow> (uuid \<Rightarrow> 'sub) \<Rightarrow> ('conn netconn \<Rightarrow> 'sub \<Rightarrow> string option) \<Rightarrow>
   ('conn, 'sub) event list" where
  "workspaceProxyCoordinate accepted new_id ServeMultiAgent ServeWorkspaceProxy =
     [EvWaitMutexLock, EvWaitGroupAdd 1, EvWaitMutexUnlock, EvAccept] @
     (case accepted of
        Inl err \<Rightarrow>
          [EvWrite StatusBadRequest (Response ''Failed to accept websocket.'' err)]
      | Inr conn \<Rightarrow>
          (let id = new_id;
               sub = ServeMultiAgent id;
               nc = NetConn conn MessageText
           in [EvUuidNew, EvServeMultiAgent id, EvNetConn conn MessageText,
               EvServeWorkspaceProxy nc sub] @
              (case ServeWorkspaceProxy nc sub of
                 None \<Rightarrow> []
               | Some err \<Rightarrow> [EvConnClose StatusInternalError err]) @
              [EvNcClose nc])) @
     [EvWaitGroupDone]"

definition is_write :: "('conn, 'sub) event \<Rightarrow> bool" where
  "is_write e = (case e of EvWrite code b \<Rightarrow> True | _ \<Rightarrow> False)"

definition is_close :: "('conn, 'sub) event \<Rightarrow> bool" where
  "is_close e = (case e of EvConnClose code reason \<Rightarrow> True | EvNcClose nc \<Rightarrow> True | _ \<Rightarrow> False)"

subsection \<open>The coalescing send queue of a peer\<close>

text \<open>
  Modelled from the spec: the per-peer send queue and its send loop belong to the
  coordinator package, which is not part of the sources at hand. The design notes
  describe the queue as a map from peer id to the slot of the most recent pending
  \<^verbatim>\<open>NodeUpdate\<close> together with a FIFO of slot references and \<^verbatim>\<open>PeerGone\<close> events:
  enqueue either replaces the slot contents or appends; a \<^verbatim>\<open>PeerGone\<close> supersedes
  the pending \<^verbatim>\<open>NodeUpdate\<close> for the same peer and is itself appended; dequeue
  empties the slot and removes it from the map. There is at most one slot per peer;
  the spec gives the bound of the queue no effect beyond this coalescing (an enqueue
  never fails and a \<^verbatim>\<open>PeerGone\<close> is never dropped), so the model carries no
  capacity. Nodes are opaque (a type variable).
\<close>

datatype 'node Update =
    NodeUpdate uuid 'node
  | PeerGone uuid

datatype entry =
    SlotRef uuid
  | Gone uuid

record 'node Queue =
  slots :: "uuid \<rightharpoonup> 'node"
  fifo :: "entry list"

definition empty_queue :: "'node Queue" where
  "empty_queue = \<lparr>slots = Map.empty, fifo = []\<rparr>"

text \<open>
  Modelled from the spec: enqueue of a \<^verbatim>\<open>NodeUpdate\<close> replaces the contents of the
  peer's slot when one is pending and appends a new slot otherwise; enqueue of a
  \<^verbatim>\<open>PeerGone\<close> drops the peer's pending slot and appends the event.
\<close>

fun enqueue :: "'node Queue \<Rightarrow> 'node Update \<Rightarrow> 'node Queue" where
  "enqueue q (NodeUpdate p n) =
     (if slots q p \<noteq> None
      then q\<lparr>slots := (slots q)(p \<mapsto> n)\<rparr>
      else q\<lparr>slots := (slots q)(p \<mapsto> n), fifo := fifo q @ [SlotRef p]\<rparr>)"
| "enqueue q (PeerGone p) =
     q\<lparr>slots := (slots q)(p := None),
       fifo := filter (\<lambda>e. e \<noteq> SlotRef p) (fifo q) @ [Gone p]\<rparr>"

fun enqueue_all :: "'node Queue \<Rightarrow> 'node Update list \<Rightarrow> 'node Queue" where
  "enqueue_all q [] = q"
| "enqueue_all q (u # us) = enqueue_all (enqueue q u) us"

text \<open>
  Modelled from the spec: dequeue takes the head of the FIFO; for a slot reference it
  empties the slot and removes it from the map. A slot reference whose slot is empty
  carries nothing and is passed over; none arises from \<open>enqueue\<close>.
\<close>

fun dequeue_from :: "(uuid \<rightharpoonup> 'node) \<Rightarrow> entry list \<Rightarrow> ('node Update \<times> 'node Queue) option" where
  "dequeue_from s [] = None"
| "dequeue_from s (Gone p # es) = Some (PeerGone p, \<lparr>slots = s, fifo = es\<rparr>)"
| "dequeue_from s (SlotRef p # es) =
     (case s p of
        Some n \<Rightarrow> Some (NodeUpdate p n, \<lparr>slots = s(p := None), fifo = es\<rparr>)
      | None \<Rightarrow> dequeue_from s es)"

definition dequeue :: "'node Queue \<Rightarrow> ('node Update \<times> 'node Queue) option" where
  "dequeue q = dequeue_from (slots q) (fifo q)"

lemma dequeue_from_shorter:
  "dequeue_from s es = Some (u, q') \<Longrightarrow> length (fifo q') < length es"
  by (induction s es rule: dequeue_from.induct) (auto split: option.splits)

text \<open>
  Modelled from the spec: the send loop reads from the queue and writes each update
  to the transport, here until the queue is empty; the result is what was transmitted.
\<close>

function drain :: "'node Queue \<Rightarrow> 'node Update list" where
  "drain q = (case dequeue q of None \<Rightarrow> [] | Some (u, q') \<Rightarrow> u # drain q')"
  by pat_completeness auto
termination drain
  by (relation "measure (\<lambda>q. length (fifo q))") (auto simp: dequeue_def dequeue_from_shorter)

declare drain.simps [simp del]

text \<open>
  The send loop in closed form, by recursion over the FIFO; \<open>drain_eq\<close> below shows
  that it is what \<open>drain\<close> computes.
\<close>

fun transmit :: "(uuid \<rightharpoonup> 'node) \<Rightarrow> entry list \<Rightarrow> 'node Update list" where
  "transmit s [] = []"
| "transmit s (Gone p # es) = PeerGone p # transmit s es"
| "transmit s (SlotRef p # es) =
     (case s p of
        Some n \<Rightarrow> NodeUpdate p n # transmit (s(p := None)) es
      | None \<Rightarrow> transmit s es)"

text \<open>Every filled slot is referenced from the FIFO: the invariant of the queue.\<close>

definition slots_listed :: "'node Queue \<Rightarrow> bool" where
  "slots_listed q = (\<forall>p. slots q p \<noteq> None \<longrightarrow> SlotRef p \<in> set (fifo q))"

definition gone_of :: "entry \<Rightarrow> 'node Update list" where
  "gone_of e = (case e of Gone p \<Rightarrow> [PeerGone p] | SlotRef p \<Rightarrow> [])"

text \<open>Which transmitted updates are a \<^verbatim>\<open>NodeUpdate\<close> for peer \<open>p\<close>, which a \<^verbatim>\<open>PeerGone\<close>.\<close>

definition node_update_of :: "uuid \<Rightarrow> 'node Update \<Rightarrow> bool" where
  "node_update_of p u = (case u of NodeUpdate p' n \<Rightarrow> p' = p | PeerGone p' \<Rightarrow> False)"

definition is_gone :: "'node Update \<Rightarrow> bool" where
  "is_gone u = (case u of NodeUpdate p n \<Rightarrow> False | PeerGone p \<Rightarrow> True)"

definition about :: "uuid \<Rightarrow> 'node Update \<Rightarrow> bool" where
  "about p u = (case u of NodeUpdate p' n \<Rightarrow> p' = p | PeerGone p' \<Rightarrow> p' = p)"

text \<open>
  The coalescing policy in the spec's words: of the updates enqueued about peer \<open>p\<close>,
  only the most recent \<^verbatim>\<open>NodeUpdate\<close> is to be transmitted, and none if a \<^verbatim>\<open>PeerGone\<close>
  for \<open>p\<close> came after it.
\<close>

definition latest_pending :: "uuid \<Rightarrow> 'node Update list \<Rightarrow> 'node Update list" where
  "latest_pending p us =
     (case rev (filter (about p) us) of
        [] \<Rightarrow> []
      | u # older \<Rightarrow> filter (node_update_of p) [u])"

subsection \<open>The multi-agent handle\<close>

text \<open>
  Modelled from the spec: the multi-agent aggregator (package \<^verbatim>\<open>tailnet\<close>) is not part
  of the sources at hand; only the generated mock of its interface is, and a mock
  returns whatever a test scripts. The handle is in one of the states
  Fresh, Open, Closed; it holds the set of subscriptions, the proxy's own node and
  the queue of batches not yet pulled. The flag \<open>final_sent\<close> records that the pull
  has reported the closure.
\<close>

datatype ma_state = Fresh | Open | Closed

datatype ma_error = ErrClosed

record 'node MultiAgent =
  ma_id :: uuid
  ma_state :: ma_state
  subscriptions :: "uuid set"
  self_node :: "'node option"
  batches :: "'node list list"
  final_sent :: bool

text \<open>
  Modelled from the spec: the operations of the handle. \<^verbatim>\<open>subscribe_agent\<close> is an
  idempotent add, \<^verbatim>\<open>unsubscribe_agent\<close> an idempotent remove, \<^verbatim>\<open>update_self\<close> records
  the proxy's own node, \<^verbatim>\<open>close\<close> moves the handle to Closed; from Closed each of
  them fails with \<^verbatim>\<open>ErrClosed\<close> and leaves the handle as it is.
\<close>

definition register :: "'node MultiAgent \<Rightarrow> 'node MultiAgent" where
  "register m = (if ma_state m = Fresh then m\<lparr>ma_state := Open\<rparr> else m)"

definition subscribe_agent :: "'node MultiAgent \<Rightarrow> uuid \<Rightarrow> ma_error + 'node MultiAgent" where
  "subscribe_agent m a =
     (if ma_state m = Closed then Inl ErrClosed
      else Inr (m\<lparr>subscriptions := insert a (subscriptions m)\<rparr>))"

definition unsubscribe_agent :: "'node MultiAgent \<Rightarrow> uuid \<Rightarrow> ma_error + 'node MultiAgent" where
  "unsubscribe_agent m a =
     (if ma_state m = Closed then Inl ErrClosed
      else Inr (m\<lparr>subscriptions := subscriptions m - {a}\<rparr>))"

definition update_self :: "'node MultiAgent \<Rightarrow> 'node \<Rightarrow> ma_error + 'node MultiAgent" where
  "update_self m n =
     (if ma_state m = Closed then Inl ErrClosed
      else Inr (m\<lparr>self_node := Some n\<rparr>))"

definition close :: "'node MultiAgent \<Rightarrow> ma_error + 'node MultiAgent" where
  "close m =
     (if ma_state m = Closed then Inl ErrClosed
      else Inr (m\<lparr>ma_state := Closed\<rparr>))"

definition is_closed :: "'node MultiAgent \<Rightarrow> bool" where
  "is_closed m = (ma_state m = Closed)"

text \<open>What a call on the handle gives back to its caller.\<close>

datatype 'node outcome =
    Failed ma_error
  | Succeeded
  | Answer bool
  | Pulled "'node list" bool
  | Blocked

text \<open>
  Modelled from the spec: \<^verbatim>\<open>next_update\<close> is a blocking pull of the next batch,
  returned with the flag \<^verbatim>\<open>more\<close>. Queued batches are handed out first, also on a
  closed handle. On an open handle with an empty queue the pull blocks. Once the
  queue of a closed handle has drained the pull returns \<^verbatim>\<open>more = false\<close>, exactly
  once; from then on it is an operation on a closed handle like any other and fails
  with \<^verbatim>\<open>ErrClosed\<close> (the spec names no other result for a closed handle).
\<close>

definition next_update :: "'node MultiAgent \<Rightarrow> 'node outcome \<times> 'node MultiAgent" where
  "next_update m =
     (case batches m of
        b # bs \<Rightarrow> (Pulled b True, m\<lparr>batches := bs\<rparr>)
      | [] \<Rightarrow>
          if ma_state m \<noteq> Closed then (Blocked, m)
          else if final_sent m then (Failed ErrClosed, m)
          else (Pulled [] False, m\<lparr>final_sent := True\<rparr>))"

text \<open>
  A caller uses the handle through a sequence of calls; \<open>run\<close> gives their outcomes
  in order and \<open>after\<close> the handle they leave behind.
\<close>

datatype 'node op =
    SubscribeAgent uuid
  | UnsubscribeAgent uuid
  | UpdateSelf 'node
  | Close
  | IsClosed
  | NextUpdate

definition returned ::
  "'node MultiAgent \<Rightarrow> ma_error + 'node MultiAgent \<Rightarrow> 'node outcome \<times> 'node MultiAgent" where
  "returned m res = (case res of Inl e \<Rightarrow> (Failed e, m) | Inr m' \<Rightarrow> (Succeeded, m'))"

fun apply_op :: "'node MultiAgent \<Rightarrow> 'node op \<Rightarrow> 'node outcome \<times> 'node MultiAgent" where
  "apply_op m (SubscribeAgent a) = returned m (subscribe_agent m a)"
| "apply_op m (UnsubscribeAgent a) = returned m (unsubscribe_agent m a)"
| "apply_op m (UpdateSelf n) = returned m (update_self m n)"
| "apply_op m Close = returned m (close m)"
| "apply_op m IsClosed = (Answer (is_closed m), m)"
| "apply_op m NextUpdate = next_update m"


fun after :: "'node MultiAgent \<Rightarrow> 'node op list \<Rightarrow> 'node MultiAgent" where
  "after m [] = m"
| "after m (x # xs) = after (snd (apply_op m x)) xs"




section \<open>Properties\<close>

subsection \<open>Properties of \<^verbatim>\<open>agentIsLegacy\<close>\<close>

lemma legacy_of_None: "legacy_of wip None = Inr False"
  by (simp add: legacy_of_def and_then_def)

lemma legacy_of_Some:
  "legacy_of wip (Some n) =
     Inr (case Addresses n of [] \<Rightarrow> False | p # ps \<Rightarrow> Addr p = wip)"
  by (cases "Addresses n") (simp_all add: legacy_of_def and_then_def bind_def deref_def index_def)

lemma legacy_of_total:
  "legacy_of wip node =
     Inr (\<exists>n p ps. node = Some n \<and> Addresses n = p # ps \<and> Addr p = wip)"
proof (cases node)
  case None
  then show ?thesis by (simp add: legacy_of_None)
next
  case (Some n)
  then show ?thesis by (cases "Addresses n") (simp_all add: legacy_of_Some)
qed

text \<open>
  Claim C1. For a request whose path parameter parses as a UUID, the handler answers
  with status 200 and the body \<open>{found, legacy}\<close>, where \<open>found\<close> holds exactly when
  the coordinator's \<^verbatim>\<open>Node\<close> lookup for that id returns a node, and \<open>legacy\<close> holds
  exactly when \<open>found\<close> holds and the node's first address is
  \<^verbatim>\<open>codersdk.WorkspaceAgentIP\<close>.
\<close>

theorem agentIsLegacy_found_and_legacy:
  assumes "ParseUUIDParam rw r ''workspaceagent'' = (rw1, agentID, True)"
    and "Node_method coordinator agentID = (node, coordinator1)"
  shows "agentIsLegacy wip ParseUUIDParam Node_method rw r coordinator =
           Inr (Write rw1 StatusOK
                  (AgentIsLegacyResponse (node \<noteq> None)
                     (node \<noteq> None \<and>
                      (\<exists>n p ps. node = Some n \<and> Addresses n = p # ps \<and> Addr p = wip))),
                coordinator1)"
proof -
  have "legacy_of wip node =
          Inr (node \<noteq> None \<and> (\<exists>n p ps. node = Some n \<and> Addresses n = p # ps \<and> Addr p = wip))"
    by (cases node) (simp_all add: legacy_of_total)
  then show ?thesis
    using assms by (simp add: agentIsLegacy_def bind_def)
qed

theorem agentIsLegacy_found_and_legacy_witness:
  "(\<lambda>rw (r::unit) name. (rw, 7::uuid, True)) [] () ''workspaceagent'' = ([], 7, True) \<and>
   (\<lambda>c a. (c a, c)) [7 \<mapsto> \<lparr>Addresses = [\<lparr>ip = (0xfd7a115ca1e049d6b259b7acb1b248f4::128 word), bits = 128\<rparr>]\<rparr>] (7::uuid)
      = (Some \<lparr>Addresses = [\<lparr>ip = 0xfd7a115ca1e049d6b259b7acb1b248f4, bits = 128\<rparr>]\<rparr>,
         [7 \<mapsto> \<lparr>Addresses = [\<lparr>ip = 0xfd7a115ca1e049d6b259b7acb1b248f4, bits = 128\<rparr>]\<rparr>]) \<and>
   response_of (agentIsLegacy (0xfd7a115ca1e049d6b259b7acb1b248f4::128 word)
      (\<lambda>rw (r::unit) name. (rw, 7::uuid, True)) (\<lambda>c a. (c a, c)) [] ()
      [7 \<mapsto> \<lparr>Addresses = [\<lparr>ip = (0xfd7a115ca1e049d6b259b7acb1b248f4::128 word), bits = 128\<rparr>]\<rparr>])
     = Inr [\<lparr>status = 200, payload = AgentIsLegacyResponse True True\<rparr>]"
  using agentIsLegacy_found_and_legacy
    [of "\<lambda>rw (r::unit) name. (rw, 7::uuid, True)" "[]" "()" "[]" 7 "\<lambda>c a. (c a, c)"
        "[7 \<mapsto> \<lparr>Addresses = [\<lparr>ip = (0xfd7a115ca1e049d6b259b7acb1b248f4::128 word), bits = 128\<rparr>]\<rparr>]"
        "Some \<lparr>Addresses = [\<lparr>ip = (0xfd7a115ca1e049d6b259b7acb1b248f4::128 word), bits = 128\<rparr>]\<rparr>"
        "[7 \<mapsto> \<lparr>Addresses = [\<lparr>ip = (0xfd7a115ca1e049d6b259b7acb1b248f4::128 word), bits = 128\<rparr>]\<rparr>]"
        "0xfd7a115ca1e049d6b259b7acb1b248f4"]
  by (simp add: response_of_def Write_def StatusOK_def Addr_def)

text \<open>
  Claim C3. When the \<^verbatim>\<open>Node\<close> lookup returns nil the answer is \<open>found = False\<close>
  (and \<open>legacy = False\<close>), and it is the same answer for any two coordinators in
  which the lookup returns nil: one the agent never connected to and one it has
  left cannot be told apart from the response.
\<close>

theorem agentIsLegacy_not_connected:
  assumes "ParseUUIDParam rw r ''workspaceagent'' = (rw1, agentID, True)"
    and "fst (Node_method c agentID) = None"
    and "fst (Node_method' c' agentID) = None"
  shows "response_of (agentIsLegacy wip ParseUUIDParam Node_method rw r c) =
           Inr (Write rw1 StatusOK (AgentIsLegacyResponse False False)) \<and>
         response_of (agentIsLegacy wip ParseUUIDParam Node_method' rw r c') =
           response_of (agentIsLegacy wip ParseUUIDParam Node_method rw r c)"
  using assms
  by (auto simp: agentIsLegacy_def legacy_of_None bind_def response_of_def split: prod.splits)

text \<open>
  The witness compares a coordinator that never held the agent (the empty map) with
  one that held it and dropped it again.
\<close>

theorem agentIsLegacy_not_connected_witness:
  "(\<lambda>rw (r::unit) name. (rw, 7::uuid, True)) [] () ''workspaceagent'' = ([], 7, True) \<and>
   fst ((\<lambda>c a. (c a, c)) (Map.empty :: uuid \<rightharpoonup> nat Node) 7) = None \<and>
   fst ((\<lambda>c a. (c a, c)) ([7 \<mapsto> \<lparr>Addresses = [\<lparr>ip = 1, bits = 128\<rparr>]\<rparr>](7 := None) :: uuid \<rightharpoonup> nat Node) 7) = None \<and>
   response_of (agentIsLegacy (1::nat) (\<lambda>rw (r::unit) name. (rw, 7::uuid, True)) (\<lambda>c a. (c a, c)) [] ()
       (Map.empty :: uuid \<rightharpoonup> nat Node))
     = Inr [\<lparr>status = 200, payload = AgentIsLegacyResponse False False\<rparr>] \<and>
   response_of (agentIsLegacy (1::nat) (\<lambda>rw (r::unit) name. (rw, 7::uuid, True)) (\<lambda>c a. (c a, c)) [] ()
       ([7 \<mapsto> \<lparr>Addresses = [\<lparr>ip = 1, bits = 128\<rparr>]\<rparr>](7 := None) :: uuid \<rightharpoonup> nat Node))
     = Inr [\<lparr>status = 200, payload = AgentIsLegacyResponse False False\<rparr>]"
  using agentIsLegacy_not_connected
    [of "\<lambda>rw (r::unit) name. (rw, 7::uuid, True)" "[]" "()" "[]" 7 "\<lambda>c a. (c a, c)"
        "Map.empty :: uuid \<rightharpoonup> nat Node" "\<lambda>c a. (c a, c)"
        "[7 \<mapsto> \<lparr>Addresses = [\<lparr>ip = 1, bits = 128\<rparr>]\<rparr>](7 := None) :: uuid \<rightharpoonup> nat Node" "1::nat"]
  by (simp add: Write_def StatusOK_def)

text \<open>
  Claim C9. Evaluating the answer never panics, whatever the helper and the
  coordinator return. For a parsed id, the body carries \<open>found\<close> as above and a
  \<open>legacy\<close> flag that is true only if the node exists, has at least one address and
  its first address is \<^verbatim>\<open>codersdk.WorkspaceAgentIP\<close>; for a node with an empty
  address list the flag is false (while \<open>found\<close> is true), and \<^verbatim>\<open>Addresses[0]\<close> is
  not evaluated out of range.
\<close>

theorem agentIsLegacy_total:
  "(\<exists>res. agentIsLegacy wip ParseUUIDParam Node_method rw r c = Inr res) \<and>
   (ParseUUIDParam rw r ''workspaceagent'' = (rw1, agentID, True) \<longrightarrow>
    Node_method c agentID = (node, c1) \<longrightarrow>
    (\<exists>legacy.
       agentIsLegacy wip ParseUUIDParam Node_method rw r c =
         Inr (Write rw1 StatusOK (AgentIsLegacyResponse (node \<noteq> None) legacy), c1) \<and>
       (legacy \<longrightarrow> (\<exists>n p ps. node = Some n \<and> Addresses n = p # ps \<and> Addr p = wip)) \<and>
       (\<forall>n. node = Some n \<and> Addresses n = [] \<longrightarrow> \<not> legacy)))"
proof (intro conjI impI)
  show "\<exists>res. agentIsLegacy wip ParseUUIDParam Node_method rw r c = Inr res"
    by (simp add: agentIsLegacy_def legacy_of_total bind_def split: prod.splits)
next
  assume parsed: "ParseUUIDParam rw r ''workspaceagent'' = (rw1, agentID, True)"
    and looked_up: "Node_method c agentID = (node, c1)"
  let ?legacy = "\<exists>n p ps. node = Some n \<and> Addresses n = p # ps \<and> Addr p = wip"
  have "agentIsLegacy wip ParseUUIDParam Node_method rw r c =
          Inr (Write rw1 StatusOK (AgentIsLegacyResponse (node \<noteq> None) ?legacy), c1)"
    using parsed looked_up by (simp add: agentIsLegacy_def legacy_of_total bind_def)
  moreover have "\<forall>n. node = Some n \<and> Addresses n = [] \<longrightarrow> \<not> ?legacy"
    by auto
  ultimately show "\<exists>legacy.
       agentIsLegacy wip ParseUUIDParam Node_method rw r c =
         Inr (Write rw1 StatusOK (AgentIsLegacyResponse (node \<noteq> None) legacy), c1) \<and>
       (legacy \<longrightarrow> (\<exists>n p ps. node = Some n \<and> Addresses n = p # ps \<and> Addr p = wip)) \<and>
       (\<forall>n. node = Some n \<and> Addresses n = [] \<longrightarrow> \<not> legacy)"
    by blast
qed

theorem agentIsLegacy_total_witness:
  "(\<lambda>rw (r::unit) name. (rw, 7::uuid, True)) [] () ''workspaceagent'' = ([], 7, True) \<and>
   (\<lambda>c a. (c a, c)) ([7 \<mapsto> \<lparr>Addresses = []\<rparr>] :: uuid \<rightharpoonup> nat Node) 7
     = (Some \<lparr>Addresses = []\<rparr>, [7 \<mapsto> \<lparr>Addresses = []\<rparr>]) \<and>
   response_of (agentIsLegacy (1::nat) (\<lambda>rw (r::unit) name. (rw, 7::uuid, True)) (\<lambda>c a. (c a, c)) [] ()
       ([7 \<mapsto> \<lparr>Addresses = []\<rparr>] :: uuid \<rightharpoonup> nat Node))
     = Inr [\<lparr>status = 200, payload = AgentIsLegacyResponse True False\<rparr>]"
  using agentIsLegacy_total
    [of "1::nat" "\<lambda>rw (r::unit) name. (rw, 7::uuid, True)" "\<lambda>c a. (c a, c)" "[]" "()"
        "[7 \<mapsto> \<lparr>Addresses = []\<rparr>] :: uuid \<rightharpoonup> nat Node" "[]" 7
        "Some \<lparr>Addresses = []\<rparr>" "[7 \<mapsto> \<lparr>Addresses = []\<rparr>]"]
  by (auto simp: response_of_def Write_def StatusOK_def)

text \<open>
  Claim C10. When the path parameter does not parse as a UUID, the handler writes
  status 400 with the message \<^verbatim>\<open>Missing UUID in URL.\<close> and returns; the coordinator
  is not called (the run is the same for every \<^verbatim>\<open>Node\<close> method) and is returned as
  it was.
\<close>

theorem agentIsLegacy_bad_uuid:
  assumes "ParseUUIDParam rw r ''workspaceagent'' = (rw1, agentID, False)"
  shows "agentIsLegacy wip ParseUUIDParam Node_method rw r c =
           Inr (Write rw1 StatusBadRequest (Response ''Missing UUID in URL.'' ''''), c) \<and>
         agentIsLegacy wip ParseUUIDParam Node_method' rw r c =
           agentIsLegacy wip ParseUUIDParam Node_method rw r c \<and>
         StatusBadRequest = 400"
  using assms by (simp add: agentIsLegacy_def StatusBadRequest_def)

theorem agentIsLegacy_bad_uuid_witness:
  "(\<lambda>rw (r::unit) name. (rw, 0::uuid, False)) [] () ''workspaceagent'' = ([], 0, False) \<and>
   agentIsLegacy (1::nat) (\<lambda>rw (r::unit) name. (rw, 0::uuid, False))
       (\<lambda>c a. (Some \<lparr>Addresses = [\<lparr>ip = 1, bits = 128\<rparr>]\<rparr>, Suc c)) [] () (0::nat)
     = Inr ([\<lparr>status = 400, payload = Response ''Missing UUID in URL.'' ''''\<rparr>], 0)"
  using agentIsLegacy_bad_uuid
    [of "\<lambda>rw (r::unit) name. (rw, 0::uuid, False)" "[]" "()" "[]" 0 "1::nat"
        "\<lambda>c a. (Some \<lparr>Addresses = [\<lparr>ip = 1, bits = 128\<rparr>]\<rparr>, Suc c)" "0::nat"
        "\<lambda>c a. (Some \<lparr>Addresses = [\<lparr>ip = 1, bits = 128\<rparr>]\<rparr>, Suc c)"]
  by (simp add: Write_def)

subsection \<open>Properties of \<^verbatim>\<open>workspaceProxyCoordinate\<close>\<close>

text \<open>
  Claim C4. After a successful upgrade the handler asks the coordinator for a
  multi-agent handle, \<^verbatim>\<open>ServeMultiAgent(id)\<close> with the id it has just generated, wraps
  the accepted connection as a stream and hands exactly that stream and that handle
  to \<^verbatim>\<open>tailnet.ServeWorkspaceProxy\<close>; nothing closes the stream before serving has
  returned, and the stream is closed afterwards.
\<close>

theorem workspaceProxyCoordinate_binds_multi_agent:
  assumes "accepted = Inr conn"
  shows "\<exists>pre post.
           workspaceProxyCoordinate accepted new_id ServeMultiAgent ServeWorkspaceProxy =
             pre @ [EvServeMultiAgent new_id, EvNetConn conn MessageText,
                    EvServeWorkspaceProxy (NetConn conn MessageText) (ServeMultiAgent new_id)] @ post \<and>
           EvAccept \<in> set pre \<and> EvUuidNew \<in> set pre \<and>
           filter is_close pre = [] \<and>
           EvNcClose (NetConn conn MessageText) \<in> set post"
proof -
  let ?pre = "[EvWaitMutexLock, EvWaitGroupAdd 1, EvWaitMutexUnlock, EvAccept, EvUuidNew]
                :: ('a, 'b) event list"
  let ?nc = "NetConn conn MessageText"
  let ?post = "(case ServeWorkspaceProxy ?nc (ServeMultiAgent new_id) of
                  None \<Rightarrow> []
                | Some err \<Rightarrow> [EvConnClose StatusInternalError err]) @
               [EvNcClose ?nc, EvWaitGroupDone]"
  have "workspaceProxyCoordinate accepted new_id ServeMultiAgent ServeWorkspaceProxy =
          ?pre @ [EvServeMultiAgent new_id, EvNetConn conn MessageText,
                  EvServeWorkspaceProxy ?nc (ServeMultiAgent new_id)] @ ?post"
    using assms by (simp add: workspaceProxyCoordinate_def Let_def)
  moreover have "EvAccept \<in> set ?pre" "EvUuidNew \<in> set ?pre" by simp_all
  moreover have "filter is_close ?pre = []" by (simp add: is_close_def)
  moreover have "EvNcClose ?nc \<in> set ?post" by simp
  ultimately show ?thesis by blast
qed

theorem workspaceProxyCoordinate_binds_multi_agent_witness:
  "(Inr (5::nat) :: string + nat) = Inr 5 \<and>
   workspaceProxyCoordinate (Inr (5::nat)) 9 (\<lambda>id. id) (\<lambda>nc sub. None) =
     [EvWaitMutexLock, EvWaitGroupAdd 1, EvWaitMutexUnlock, EvAccept, EvUuidNew,
      EvServeMultiAgent 9, EvNetConn 5 MessageText,
      EvServeWorkspaceProxy (NetConn 5 MessageText) 9,
      EvNcClose (NetConn 5 MessageText), EvWaitGroupDone]"
  using workspaceProxyCoordinate_binds_multi_agent
    [of "Inr (5::nat)" 5 9 "\<lambda>id. id" "\<lambda>nc sub. None"]
  by (simp add: workspaceProxyCoordinate_def Let_def)

text \<open>
  Claim C5. The handler writes an HTTP status only when the upgrade fails, and the
  status is then 400, a 4xx code. After a successful upgrade it writes none: an
  error of the serving is reported by closing the websocket with
  \<^verbatim>\<open>StatusInternalError\<close> and the text of the error, and the stream is closed on
  return either way.
\<close>

theorem workspaceProxyCoordinate_status_only_on_failed_upgrade:
  "(\<forall>e \<in> set (workspaceProxyCoordinate accepted new_id ServeMultiAgent ServeWorkspaceProxy).
      is_write e \<longrightarrow>
        (\<exists>err. accepted = Inl err \<and>
               e = EvWrite StatusBadRequest (Response ''Failed to accept websocket.'' err))) \<and>
   400 \<le> StatusBadRequest \<and> StatusBadRequest < 500 \<and>
   (accepted = Inr conn \<longrightarrow>
      filter is_write (workspaceProxyCoordinate accepted new_id ServeMultiAgent ServeWorkspaceProxy) = [] \<and>
      filter is_close (workspaceProxyCoordinate accepted new_id ServeMultiAgent ServeWorkspaceProxy) =
        (case ServeWorkspaceProxy (NetConn conn MessageText) (ServeMultiAgent new_id) of
           None \<Rightarrow> []
         | Some err \<Rightarrow> [EvConnClose StatusInternalError err]) @
        [EvNcClose (NetConn conn MessageText)])"
  by (cases accepted)
     (auto simp: workspaceProxyCoordinate_def Let_def is_write_def is_close_def
        StatusBadRequest_def split: option.splits)

theorem workspaceProxyCoordinate_status_only_on_failed_upgrade_witness:
  "filter is_write (workspaceProxyCoordinate (Inr (5::nat)) 9 (\<lambda>id. id) (\<lambda>nc sub. Some ''EOF'')) = [] \<and>
   filter is_close (workspaceProxyCoordinate (Inr (5::nat)) 9 (\<lambda>id. id) (\<lambda>nc sub. Some ''EOF'')) =
     [EvConnClose 1011 ''EOF'', EvNcClose (NetConn 5 MessageText)] \<and>
   filter is_write (workspaceProxyCoordinate (Inl ''bad handshake'' :: string + nat) 9 (\<lambda>id. id) (\<lambda>nc sub. None)) =
     [EvWrite 400 (Response ''Failed to accept websocket.'' ''bad handshake'')]"
  using workspaceProxyCoordinate_status_only_on_failed_upgrade
    [of "Inr (5::nat)" 9 "\<lambda>id. id" "\<lambda>nc sub. Some ''EOF''" 5]
  by (simp add: workspaceProxyCoordinate_def Let_def is_write_def is_close_def
      StatusInternalError_def StatusBadRequest_def)

text \<open>
  On every path the handler first registers with the wait group, under the mutex,
  and deregisters last, after the stream has been closed.
\<close>

lemma workspaceProxyCoordinate_wait_group_bracket:
  "\<exists>mid. workspaceProxyCoordinate accepted new_id ServeMultiAgent ServeWorkspaceProxy =
           [EvWaitMutexLock, EvWaitGroupAdd 1, EvWaitMutexUnlock] @ mid @ [EvWaitGroupDone] \<and>
         EvWaitGroupAdd 1 \<notin> set mid \<and> EvWaitGroupDone \<notin> set mid"
  by (cases accepted)
     (auto simp: workspaceProxyCoordinate_def Let_def split: option.splits)

subsection \<open>Properties of the coalescing send queue\<close>

lemma drain_transmit: "drain \<lparr>slots = s, fifo = es\<rparr> = transmit s es"
proof (induction es arbitrary: s)
  case Nil
  show ?case by (subst drain.simps) (simp add: dequeue_def)
next
  case (Cons e es)
  show ?case
  proof (cases e)
    case (Gone p)
    with Cons show ?thesis by (subst drain.simps) (simp add: dequeue_def)
  next
    case (SlotRef p)
    show ?thesis
    proof (cases "s p")
      case None
      have "drain \<lparr>slots = s, fifo = SlotRef p # es\<rparr> = drain \<lparr>slots = s, fifo = es\<rparr>"
        by (subst drain.simps, subst (2) drain.simps) (simp add: dequeue_def None)
      with Cons SlotRef None show ?thesis by simp
    next
      case (Some n)
      with Cons SlotRef show ?thesis by (subst drain.simps) (simp add: dequeue_def fun_upd_def)
    qed
  qed
qed

lemma drain_eq: "drain q = transmit (slots q) (fifo q)"
  using drain_transmit [of "slots q" "fifo q"] by (cases q) simp

lemma transmit_node_updates:
  "filter (node_update_of p) (transmit s es) =
     (if SlotRef p \<in> set es then (case s p of Some n \<Rightarrow> [NodeUpdate p n] | None \<Rightarrow> []) else [])"
proof (induction es arbitrary: s)
  case Nil
  show ?case by simp
next
  case (Cons e es)
  show ?case
  proof (cases e)
    case (Gone p')
    with Cons show ?thesis by (simp add: node_update_of_def)
  next
    case (SlotRef p')
    with Cons show ?thesis
      by (cases "s p'") (auto simp: node_update_of_def split: option.splits)
  qed
qed

lemma transmit_gone: "filter is_gone (transmit s es) = concat (map gone_of es)"
proof (induction es arbitrary: s)
  case Nil
  show ?case by simp
next
  case (Cons e es)
  show ?case
  proof (cases e)
    case (Gone p')
    with Cons show ?thesis by (simp add: is_gone_def gone_of_def)
  next
    case (SlotRef p')
    with Cons show ?thesis
      by (cases "s p'") (simp_all add: is_gone_def gone_of_def)
  qed
qed

lemma gone_of_filter:
  "concat (map gone_of (filter (\<lambda>e. e \<noteq> SlotRef p) es)) = concat (map gone_of es)"
  by (induction es) (auto simp: gone_of_def)

lemma enqueue_all_append: "enqueue_all q (us @ vs) = enqueue_all (enqueue_all q us) vs"
  by (induction us arbitrary: q) simp_all

lemma slots_listed_enqueue: "slots_listed q \<Longrightarrow> slots_listed (enqueue q u)"
  by (cases u) (auto simp: slots_listed_def)

lemma slots_listed_enqueue_all: "slots_listed q \<Longrightarrow> slots_listed (enqueue_all q us)"
  by (induction us arbitrary: q) (simp_all add: slots_listed_enqueue)

lemma slots_listed_empty: "slots_listed empty_queue"
  by (simp add: slots_listed_def empty_queue_def)

lemma slots_enqueue_all:
  "slots (enqueue_all empty_queue us) p =
     (case rev (filter (about p) us) of
        [] \<Rightarrow> None
      | NodeUpdate p' n # older \<Rightarrow> Some n
      | PeerGone p' # older \<Rightarrow> None)"
proof (induction us rule: rev_induct)
  case Nil
  show ?case by (simp add: empty_queue_def)
next
  case (snoc u us)
  show ?case
  proof (cases u)
    case (NodeUpdate p' n)
    with snoc show ?thesis by (simp add: enqueue_all_append about_def)
  next
    case (PeerGone p')
    with snoc show ?thesis by (simp add: enqueue_all_append about_def)
  qed
qed

lemma gone_enqueue_all:
  "filter is_gone (drain (enqueue_all q us)) = filter is_gone (drain q) @ filter is_gone us"
proof (induction us arbitrary: q)
  case Nil
  show ?case by simp
next
  case (Cons u us)
  have "filter is_gone (drain (enqueue q u)) = filter is_gone (drain q) @ filter is_gone [u]"
    by (cases u) (simp_all add: drain_eq transmit_gone gone_of_filter is_gone_def gone_of_def)
  with Cons show ?case by simp
qed

lemma coalesced_node_updates:
  "filter (node_update_of p) (drain (enqueue_all empty_queue us)) = latest_pending p us"
proof -
  let ?q = "enqueue_all empty_queue us"
  have listed: "slots ?q p \<noteq> None \<longrightarrow> SlotRef p \<in> set (fifo ?q)"
    using slots_listed_enqueue_all [OF slots_listed_empty, of us]
    by (simp add: slots_listed_def)
  have "filter (node_update_of p) (drain ?q) =
          (case slots ?q p of Some n \<Rightarrow> [NodeUpdate p n] | None \<Rightarrow> [])"
    using listed by (auto simp: drain_eq transmit_node_updates split: option.splits)
  also have "\<dots> = latest_pending p us"
  proof (cases "rev (filter (about p) us)")
    case Nil
    then show ?thesis by (simp add: slots_enqueue_all latest_pending_def)
  next
    case (Cons u older)
    have "u \<in> set (rev (filter (about p) us))"
      by (simp add: Cons del: set_rev)
    then have "about p u" by simp
    with Cons show ?thesis
      by (cases u) (simp_all add: slots_enqueue_all latest_pending_def node_update_of_def about_def)
  qed
  finally show ?thesis .
qed


text \<open>
  Claim C2. Whatever was enqueued before (\<open>us\<close>), what the send loop transmits
  about a peer \<open>p\<close> as \<^verbatim>\<open>NodeUpdate\<close> is what the coalescing policy asks for: the
  most recent one, unless a later \<^verbatim>\<open>PeerGone\<close> superseded it. In particular, after a
  run of \<^verbatim>\<open>NodeUpdate\<close>s for \<open>p\<close> only the last of them is transmitted, so no stale
  update follows a newer one; after a \<^verbatim>\<open>PeerGone\<close> for \<open>p\<close> no \<^verbatim>\<open>NodeUpdate\<close> for
  \<open>p\<close> is transmitted; and every \<^verbatim>\<open>PeerGone\<close> enqueued is transmitted, in order.
\<close>

theorem coalescing_send_queue:
  "filter (node_update_of p) (drain (enqueue_all empty_queue us)) = latest_pending p us \<and>
   (ns \<noteq> [] \<longrightarrow>
      filter (node_update_of p)
        (drain (enqueue_all (enqueue_all empty_queue us) (map (NodeUpdate p) ns))) =
      [NodeUpdate p (last ns)]) \<and>
   filter (node_update_of p) (drain (enqueue (enqueue_all empty_queue us) (PeerGone p))) = [] \<and>
   filter is_gone (drain (enqueue_all empty_queue us)) = filter is_gone us"
proof (intro conjI impI)
  show "filter (node_update_of p) (drain (enqueue_all empty_queue us)) = latest_pending p us"
    by (rule coalesced_node_updates)
next
  assume ns: "ns \<noteq> []"
  have "filter (about p) (map (NodeUpdate p) ns) = map (NodeUpdate p) ns"
    by (induction ns) (simp_all add: about_def)
  moreover have "rev (map (NodeUpdate p) ns) = NodeUpdate p (last ns) # rev (map (NodeUpdate p) (butlast ns))"
    using ns by (induction ns rule: rev_induct) simp_all
  ultimately have "latest_pending p (us @ map (NodeUpdate p) ns) = [NodeUpdate p (last ns)]"
    by (simp add: latest_pending_def node_update_of_def)
  then show "filter (node_update_of p)
        (drain (enqueue_all (enqueue_all empty_queue us) (map (NodeUpdate p) ns))) =
      [NodeUpdate p (last ns)]"
    using coalesced_node_updates [of p "us @ map (NodeUpdate p) ns"]
    by (simp add: enqueue_all_append)
next
  have "latest_pending p (us @ [PeerGone p]) = []"
    by (simp add: latest_pending_def about_def node_update_of_def)
  then show "filter (node_update_of p) (drain (enqueue (enqueue_all empty_queue us) (PeerGone p))) = []"
    using coalesced_node_updates [of p "us @ [PeerGone p]"]
    by (simp add: enqueue_all_append)
next
  show "filter is_gone (drain (enqueue_all empty_queue us)) = filter is_gone us"
    using gone_enqueue_all [of empty_queue us]
    by (simp add: drain_eq empty_queue_def)
qed

theorem coalescing_send_queue_witness:
  "[11, 12, 13::nat] \<noteq> [] \<and>
   drain (enqueue_all (enqueue_all empty_queue [NodeUpdate 1 10, NodeUpdate 2 20, PeerGone 3])
            (map (NodeUpdate 1) [11, 12, 13::nat])) =
     [NodeUpdate 1 13, NodeUpdate 2 20, PeerGone 3] \<and>
   filter (node_update_of 1)
     (drain (enqueue_all (enqueue_all empty_queue [NodeUpdate 1 10, NodeUpdate 2 20, PeerGone 3])
            (map (NodeUpdate 1) [11, 12, 13::nat]))) =
     [NodeUpdate 1 13] \<and>
   drain (enqueue (enqueue_all empty_queue [NodeUpdate 1 10, NodeUpdate 2 20, PeerGone 3])
            (PeerGone 1 :: nat Update)) =
     [NodeUpdate 2 20, PeerGone 3, PeerGone 1]"
  using coalescing_send_queue [of 1 "[NodeUpdate 1 10, NodeUpdate 2 20, PeerGone 3]" "[11, 12, 13::nat]"]
  by (simp add: drain_eq empty_queue_def)

subsection \<open>Properties of the multi-agent handle\<close>

lemma apply_op_closed:
  assumes "ma_state m = Closed" and "x \<noteq> NextUpdate"
  shows "apply_op m x = (if x = IsClosed then Answer True else Failed ErrClosed, m)"
  using assms
  by (cases x)
     (simp_all add: returned_def subscribe_agent_def unsubscribe_agent_def update_self_def
        close_def is_closed_def)

lemma next_update_closed:
  assumes "ma_state m = Closed"
  shows "ma_state (snd (next_update m)) = Closed"
  using assms by (simp add: next_update_def split: list.splits)

lemma apply_op_stays_closed:
  assumes "ma_state m = Closed"
  shows "ma_state (snd (apply_op m x)) = Closed"
proof (cases "x = NextUpdate")
  case True
  with assms show ?thesis by (simp add: next_update_closed)
next
  case False
  with assms show ?thesis by (simp add: apply_op_closed)
qed

lemma after_stays_closed:
  "ma_state m = Closed \<Longrightarrow> ma_state (after m xs) = Closed"
  by (induction xs arbitrary: m) (simp_all add: apply_op_stays_closed)

















end
